theory Spec2Isabelle
  imports Complex_Main
begin

section \<open>The flow graph of gr-rfid/grc/top_block.py\<close>

text \<open>
  The file is the generated Python of a GNU Radio flow graph: a class \<open>top_block\<close> whose
  constructor binds ten variables, builds nine blocks from them and wires the blocks, and
  one getter and one setter per variable. The model keeps the object's fields in a record,
  the blocks' constructor arguments in one record per block, and the wiring as the list of
  \<open>connect\<close> calls in source order. The Qt window (lines 35 to 56, \<open>closeEvent\<close>,
  \<open>main\<close>) holds no configuration and is left out.

  Numbers: a stored value is a finite number, float or int, and is modelled by the rational
  it denotes. What the interpreter computes from stored values is another matter: a float
  division rounds to a double or overflows to infinity, Python 2 divides two ints with
  floor, and a list is built only if memory allows. These are the interpreter's, not the
  file's, and they are a parameter of the model; every statement over an arbitrary
  \<open>interpreter\<close> holds of the one that runs the file. What the language fixes is written
  out: a zero divisor raises, \<open>int\<close> truncates a finite number and raises on infinity and
  nan, and a repeated list, once built, holds the copies.
\<close>

subsection \<open>Python arithmetic used by the file\<close>

datatype error = ZeroDivisionError | OverflowError | ValueError | MemoryError

text \<open>What an arithmetic expression evaluates to: a finite number, an infinity or nan.\<close>

datatype float_value = Finite rat | PosInf | NegInf | NaN

text \<open>
  The interpreter: \<open>truediv_nonzero a b\<close> is what \<open>a / b\<close> gives on a non-zero \<open>b\<close> (a
  rounded quotient, an infinity, the floor for two ints, or an OverflowError for an int too
  large for a float); \<open>float_mul x c\<close> is what \<open>x * c\<close> gives; \<open>list_alloc n\<close> says whether
  a list of \<open>n\<close> copies can be built, and which exception is raised when it cannot.
\<close>

record interpreter =
  truediv_nonzero :: "rat \<Rightarrow> rat \<Rightarrow> error + float_value"
  float_mul :: "float_value \<Rightarrow> rat \<Rightarrow> error + float_value"
  list_alloc :: "int \<Rightarrow> error option"

text \<open>\<open>a / b\<close>: a zero divisor raises, for floats and ints alike.\<close>

definition py_truediv :: "interpreter \<Rightarrow> rat \<Rightarrow> rat \<Rightarrow> error + float_value" where
  "py_truediv py a b = (if b = 0 then Inl ZeroDivisionError else truediv_nonzero py a b)"

text \<open>\<open>int(x)\<close> on a finite number truncates toward zero.\<close>

definition py_int :: "rat \<Rightarrow> int" where
  "py_int x = (if 0 \<le> x then \<lfloor>x\<rfloor> else \<lceil>x\<rceil>)"

text \<open>\<open>int(x)\<close> on the value of an expression: infinity and nan raise.\<close>

fun int_of :: "float_value \<Rightarrow> error + int" where
  "int_of (Finite x) = Inr (py_int x)"
| "int_of PosInf = Inl OverflowError"
| "int_of NegInf = Inl OverflowError"
| "int_of NaN = Inl ValueError"

text \<open>\<open>xs * n\<close> on a list: \<open>n\<close> copies, none when \<open>n\<close> is zero or negative.\<close>

definition list_times :: "'a list \<Rightarrow> int \<Rightarrow> 'a list" where
  "list_times xs n = concat (replicate (nat n) xs)"

definition py_list_times :: "interpreter \<Rightarrow> 'a list \<Rightarrow> int \<Rightarrow> error + 'a list" where
  "py_list_times py xs n =
     (case list_alloc py n of
        Some e \<Rightarrow> Inl e
      | None \<Rightarrow> Inr (list_times xs n))"

text \<open>
  The expression \<open>[1]* int(adc_rate/blf * 0.5)\<close> of lines 66, 110 and 117, as a function
  of the two variables it reads: divide, multiply by \<open>0.5\<close>, convert, repeat.
\<close>

definition num_taps_expr :: "interpreter \<Rightarrow> rat \<Rightarrow> rat \<Rightarrow> error + rat list" where
  "num_taps_expr py a b =
     (case py_truediv py a b of
        Inl e \<Rightarrow> Inl e
      | Inr q \<Rightarrow>
          (case float_mul py q (1 / 2) of
             Inl e \<Rightarrow> Inl e
           | Inr h \<Rightarrow>
               (case int_of h of
                  Inl e \<Rightarrow> Inl e
                | Inr n \<Rightarrow> py_list_times py [1] n)))"

text \<open>The expression \<open>int(adc_rate/decim)\<close> of lines 75 to 77.\<close>

definition rate_expr :: "interpreter \<Rightarrow> rat \<Rightarrow> rat \<Rightarrow> error + int" where
  "rate_expr py a d =
     (case py_truediv py a d of
        Inl e \<Rightarrow> Inl e
      | Inr q \<Rightarrow> int_of q)"

text \<open>
  The interpreter on numbers where nothing is lost: the quotient and the product are the
  exact ones and the list is built. The interpreter that runs the file agrees with it
  wherever the exact quotient and product are numbers a double holds and the list is
  short, which is so at every constant of the file (\<open>2e6 / 40e3 = 50\<close>, \<open>50 * 0.5 = 25\<close>,
  \<open>2e6 / 5 = 400000\<close>); the constructor below is evaluated with it.
\<close>

definition exact :: interpreter where
  "exact =
     \<lparr> truediv_nonzero = (\<lambda>a b. Inr (Finite (a / b))),
       float_mul = (\<lambda>x c. Inr (case x of Finite q \<Rightarrow> Finite (q * c) | PosInf \<Rightarrow> PosInf
                                  | NegInf \<Rightarrow> NegInf | NaN \<Rightarrow> NaN)),
       list_alloc = (\<lambda>n. None) \<rparr>"

subsection \<open>Blocks\<close>

text \<open>
  Each block is the record of what the file passes to its constructor or sets on it
  afterwards. The blocks themselves (\<open>rfid.*\<close>, \<open>filter.*\<close>, \<open>blocks.*\<close>) are library
  objects; the file only configures them.
\<close>

record tag_decoder =
  td_sample_rate :: int

record reader =
  rd_sample_rate :: int
  rd_dac_rate :: int

record gate =
  gt_sample_rate :: int

record fir_filter_ccc =
  fir_decimation :: rat
  fir_taps :: "rat list"
  fir_sample_delay :: nat

record multiply_const_vff =
  mc_k :: "rat list"

record float_to_complex =
  ftc_vlen :: nat

record file_source =
  src_itemsize :: nat
  src_filename :: string
  src_repeat :: bool

record file_sink =
  snk_itemsize :: nat
  snk_filename :: string
  snk_append :: bool
  snk_unbuffered :: bool

text \<open>\<open>gr.sizeof_gr_complex\<close>: a complex sample is two 32-bit floats.\<close>

definition sizeof_gr_complex :: nat where
  "sizeof_gr_complex = 8"

subsection \<open>Wiring\<close>

datatype block =
    Blocks_file_source_0
  | Fir_filter_xxx_0
  | Rfid_gate_0
  | Rfid_tag_decoder_0
  | Rfid_reader_0
  | Blocks_multiply_const_vxx_0
  | Blocks_float_to_complex_0
  | Blocks_file_sink_0
  | Blocks_file_sink_1

type_synonym endpoint = "block \<times> nat"

text \<open>A call \<open>self.connect((a, i), (b, j))\<close>: output port \<open>i\<close> of \<open>a\<close> feeds input port \<open>j\<close> of \<open>b\<close>.\<close>

type_synonym connection = "endpoint \<times> endpoint"

text \<open>Lines 91 to 98, in order.\<close>

definition top_block_connections :: "connection list" where
  "top_block_connections =
     [((Blocks_file_source_0, 0), (Fir_filter_xxx_0, 0)),
      ((Blocks_float_to_complex_0, 0), (Blocks_file_sink_0, 0)),
      ((Blocks_multiply_const_vxx_0, 0), (Blocks_float_to_complex_0, 0)),
      ((Fir_filter_xxx_0, 0), (Rfid_gate_0, 0)),
      ((Rfid_gate_0, 0), (Rfid_tag_decoder_0, 0)),
      ((Rfid_reader_0, 0), (Blocks_multiply_const_vxx_0, 0)),
      ((Rfid_tag_decoder_0, 1), (Blocks_file_sink_1, 0)),
      ((Rfid_tag_decoder_0, 0), (Rfid_reader_0, 0))]"

subsection \<open>The object\<close>

record top_block =
  blf :: rat
  adc_rate :: rat
  tx_gain :: rat
  samp_rate :: rat
  rx_gain :: rat
  num_taps :: "rat list"
  freq :: rat
  decim :: rat
  dac_rate :: rat
  ampl :: rat
  rfid_tag_decoder_0 :: tag_decoder
  rfid_reader_0 :: reader
  rfid_gate_0 :: gate
  fir_filter_xxx_0 :: fir_filter_ccc
  blocks_multiply_const_vxx_0 :: multiply_const_vff
  blocks_float_to_complex_0 :: float_to_complex
  blocks_file_source_0 :: file_source
  blocks_file_sink_1 :: file_sink
  blocks_file_sink_0 :: file_sink
  connections :: "connection list"

subsection \<open>Construction\<close>

text \<open>
  The nine variables of lines 61 to 70 that are bound to constants. (\<open>num_taps\<close>, line 66,
  is computed from two of them.) The constructor takes no argument: the flow graph is
  configured by editing these bindings, so the rest of the constructor is modelled as a
  function of them, and the constructor itself is that function at the shipped values.
\<close>

record variables =
  v_blf :: rat
  v_adc_rate :: rat
  v_tx_gain :: rat
  v_samp_rate :: rat
  v_rx_gain :: rat
  v_freq :: rat
  v_decim :: rat
  v_dac_rate :: rat
  v_ampl :: rat

definition shipped_variables :: variables where
  "shipped_variables =
     \<lparr> v_blf = 40000,
       v_adc_rate = 100000000 / 50,
       v_tx_gain = 0,
       v_samp_rate = 32000,
       v_rx_gain = 20,
       v_freq = 910000000,
       v_decim = 5,
       v_dac_rate = 1000000,
       v_ampl = 1 / 2 \<rparr>"

text \<open>
  Lines 75 to 98: the blocks and the wiring, given the variables, the value \<open>nt\<close> of
  \<open>num_taps\<close> and the value \<open>r\<close> of \<open>int(adc_rate/decim)\<close>.
\<close>

definition assemble :: "variables \<Rightarrow> rat list \<Rightarrow> int \<Rightarrow> top_block" where
  "assemble v nt r =
     \<lparr> blf = v_blf v,
       adc_rate = v_adc_rate v,
       tx_gain = v_tx_gain v,
       samp_rate = v_samp_rate v,
       rx_gain = v_rx_gain v,
       num_taps = nt,
       freq = v_freq v,
       decim = v_decim v,
       dac_rate = v_dac_rate v,
       ampl = v_ampl v,
       rfid_tag_decoder_0 = \<lparr> td_sample_rate = r \<rparr>,
       rfid_reader_0 = \<lparr> rd_sample_rate = r, rd_dac_rate = py_int (v_dac_rate v) \<rparr>,
       rfid_gate_0 = \<lparr> gt_sample_rate = r \<rparr>,
       fir_filter_xxx_0 =
         \<lparr> fir_decimation = v_decim v, fir_taps = nt, fir_sample_delay = 0 \<rparr>,
       blocks_multiply_const_vxx_0 = \<lparr> mc_k = [v_ampl v] \<rparr>,
       blocks_float_to_complex_0 = \<lparr> ftc_vlen = 1 \<rparr>,
       blocks_file_source_0 =
         \<lparr> src_itemsize = sizeof_gr_complex * 1,
           src_filename =
             ''/home/andreas/Engineering/PartIIB/Project/repos/Hertz/gr-rfid/misc/data/file_source_test'',
           src_repeat = False \<rparr>,
       blocks_file_sink_1 =
         \<lparr> snk_itemsize = sizeof_gr_complex * 1,
           snk_filename =
             ''/home/andreas/Engineering/PartIIB/Project/repos/Hertz/gr-rfid/misc/data/file_sink'',
           snk_append = False,
           snk_unbuffered = False \<rparr>,
       blocks_file_sink_0 =
         \<lparr> snk_itemsize = sizeof_gr_complex * 1,
           snk_filename =
             ''/home/andreas/Engineering/PartIIB/Project/repos/Hertz/gr-rfid/misc/data/file_sink'',
           snk_append = False,
           snk_unbuffered = False \<rparr>,
       connections = top_block_connections \<rparr>"

text \<open>
  Lines 66 to 98. The two expressions are the only places where the constructor's own code
  can raise (\<open>int(dac_rate)\<close> is on a stored, finite number); an exception in a constructor
  leaves no object, so the result is the error alone. \<open>int(adc_rate/decim)\<close> is evaluated
  three times on the same values; the model binds it once. The calls into the libraries
  are taken to return.
\<close>

definition build :: "interpreter \<Rightarrow> variables \<Rightarrow> error + top_block" where
  "build py v =
     (case num_taps_expr py (v_adc_rate v) (v_blf v) of
        Inl e \<Rightarrow> Inl e
      | Inr nt \<Rightarrow>
          (case rate_expr py (v_adc_rate v) (v_decim v) of
             Inl e \<Rightarrow> Inl e
           | Inr r \<Rightarrow> Inr (assemble v nt r)))"

text \<open>\<open>top_block.__init__\<close>: the shipped values, on which the arithmetic is exact.\<close>

definition top_block_init :: "error + top_block" where
  "top_block_init = build exact shipped_variables"

subsection \<open>Getters and setters\<close>

text \<open>
  A setter mutates the object and may raise after it has done so (\<open>set_blf(0)\<close> stores the
  zero and then divides by it), so its outcome carries the object in both cases. The two
  setters that evaluate the tap expression take the interpreter.
\<close>

datatype outcome = Returns top_block | Raises error top_block

fun state_of :: "outcome \<Rightarrow> top_block" where
  "state_of (Returns s) = s"
| "state_of (Raises e s) = s"

fun raised :: "outcome \<Rightarrow> error option" where
  "raised (Returns s) = None"
| "raised (Raises e s) = Some e"

definition get_blf :: "top_block \<Rightarrow> rat" where
  "get_blf s = blf s"

definition get_adc_rate :: "top_block \<Rightarrow> rat" where
  "get_adc_rate s = adc_rate s"

definition get_tx_gain :: "top_block \<Rightarrow> rat" where
  "get_tx_gain s = tx_gain s"

definition set_tx_gain :: "top_block \<Rightarrow> rat \<Rightarrow> outcome" where
  "set_tx_gain s v = Returns (s\<lparr>tx_gain := v\<rparr>)"

definition get_samp_rate :: "top_block \<Rightarrow> rat" where
  "get_samp_rate s = samp_rate s"

definition set_samp_rate :: "top_block \<Rightarrow> rat \<Rightarrow> outcome" where
  "set_samp_rate s v = Returns (s\<lparr>samp_rate := v\<rparr>)"

definition get_rx_gain :: "top_block \<Rightarrow> rat" where
  "get_rx_gain s = rx_gain s"

definition set_rx_gain :: "top_block \<Rightarrow> rat \<Rightarrow> outcome" where
  "set_rx_gain s v = Returns (s\<lparr>rx_gain := v\<rparr>)"

definition get_num_taps :: "top_block \<Rightarrow> rat list" where
  "get_num_taps s = num_taps s"

text \<open>Lines 140 to 142: store the list, then hand the stored list to the filter.\<close>

definition set_num_taps :: "top_block \<Rightarrow> rat list \<Rightarrow> outcome" where
  "set_num_taps s v =
     (let s1 = s\<lparr>num_taps := v\<rparr>
      in Returns (s1\<lparr>fir_filter_xxx_0 := (fir_filter_xxx_0 s1)\<lparr>fir_taps := num_taps s1\<rparr>\<rparr>))"

text \<open>
  Lines 108 to 110 and 115 to 117: store the value, evaluate the tap expression on the
  stored fields, call \<open>set_num_taps\<close>.
\<close>

definition set_blf :: "interpreter \<Rightarrow> top_block \<Rightarrow> rat \<Rightarrow> outcome" where
  "set_blf py s v =
     (let s1 = s\<lparr>blf := v\<rparr>
      in case num_taps_expr py (adc_rate s1) (blf s1) of
           Inl e \<Rightarrow> Raises e s1
         | Inr nt \<Rightarrow> set_num_taps s1 nt)"

definition set_adc_rate :: "interpreter \<Rightarrow> top_block \<Rightarrow> rat \<Rightarrow> outcome" where
  "set_adc_rate py s v =
     (let s1 = s\<lparr>adc_rate := v\<rparr>
      in case num_taps_expr py (adc_rate s1) (blf s1) of
           Inl e \<Rightarrow> Raises e s1
         | Inr nt \<Rightarrow> set_num_taps s1 nt)"

definition get_freq :: "top_block \<Rightarrow> rat" where
  "get_freq s = freq s"

definition set_freq :: "top_block \<Rightarrow> rat \<Rightarrow> outcome" where
  "set_freq s v = Returns (s\<lparr>freq := v\<rparr>)"

definition get_decim :: "top_block \<Rightarrow> rat" where
  "get_decim s = decim s"

definition set_decim :: "top_block \<Rightarrow> rat \<Rightarrow> outcome" where
  "set_decim s v = Returns (s\<lparr>decim := v\<rparr>)"

definition get_dac_rate :: "top_block \<Rightarrow> rat" where
  "get_dac_rate s = dac_rate s"

definition set_dac_rate :: "top_block \<Rightarrow> rat \<Rightarrow> outcome" where
  "set_dac_rate s v = Returns (s\<lparr>dac_rate := v\<rparr>)"

definition get_ampl :: "top_block \<Rightarrow> rat" where
  "get_ampl s = ampl s"

text \<open>Lines 165 to 167: store the value, then set the multiplier to the one-element tuple of it.\<close>

definition set_ampl :: "top_block \<Rightarrow> rat \<Rightarrow> outcome" where
  "set_ampl s v =
     (let s1 = s\<lparr>ampl := v\<rparr>
      in Returns (s1\<lparr>blocks_multiply_const_vxx_0 :=
                        (blocks_multiply_const_vxx_0 s1)\<lparr>mc_k := [ampl s1]\<rparr>\<rparr>))"

subsection \<open>The object the constructor returns\<close>

text \<open>
  The constructor evaluated at the shipped values: 25 taps and a rate of 400000. That
  \<open>top_block_init\<close> returns this object is lemma \<open>top_block_init_value\<close> below.
\<close>

definition shipped_top_block :: top_block where
  "shipped_top_block = assemble shipped_variables (replicate 25 1) 400000"

subsection \<open>Reading the wiring\<close>

text \<open>Where an output port goes, and what feeds an input port.\<close>

definition fed_by :: "connection list \<Rightarrow> endpoint \<Rightarrow> endpoint list" where
  "fed_by cs p = map snd (filter (\<lambda>c. fst c = p) cs)"

definition feeders :: "connection list \<Rightarrow> endpoint \<Rightarrow> endpoint list" where
  "feeders cs p = map fst (filter (\<lambda>c. snd c = p) cs)"

text \<open>The blocks that take input from any output port of a block.\<close>

definition successors :: "connection list \<Rightarrow> block \<Rightarrow> block list" where
  "successors cs b = map (\<lambda>c. fst (snd c)) (filter (\<lambda>c. fst (fst c) = b) cs)"

text \<open>
  The blocks a block's samples can reach: start from the block and add successors, once per
  connection, which is as many rounds as a longest path can need.
\<close>

definition grow :: "connection list \<Rightarrow> block list \<Rightarrow> block list" where
  "grow cs bs = remdups (bs @ concat (map (successors cs) bs))"

primrec reach :: "nat \<Rightarrow> connection list \<Rightarrow> block list \<Rightarrow> block list" where
  "reach 0 cs bs = bs"
| "reach (Suc n) cs bs = reach n cs (grow cs bs)"

definition downstream :: "connection list \<Rightarrow> block \<Rightarrow> block list" where
  "downstream cs b = reach (length cs) cs [b]"

subsection \<open>The blocks' parameters as a whole\<close>

definition block_parameters ::
  "top_block \<Rightarrow> tag_decoder \<times> reader \<times> gate \<times> fir_filter_ccc \<times> multiply_const_vff \<times>
     float_to_complex \<times> file_source \<times> file_sink \<times> file_sink \<times> connection list" where
  "block_parameters s =
     (rfid_tag_decoder_0 s, rfid_reader_0 s, rfid_gate_0 s, fir_filter_xxx_0 s,
      blocks_multiply_const_vxx_0 s, blocks_float_to_complex_0 s, blocks_file_source_0 s,
      blocks_file_sink_1 s, blocks_file_sink_0 s, connections s)"

subsection \<open>The rate relationship of the specification\<close>


section \<open>Evaluating the expressions\<close>

lemma length_list_times_single: "length (list_times [x] n) = nat n"
  by (simp add: list_times_def length_concat sum_list_replicate)

lemma list_times_single: "list_times [x] n = replicate (nat n) x"
  by (induction "nat n" arbitrary: n) (simp_all add: list_times_def)



lemma num_taps_expr_steps:
  assumes "num_taps_expr py a b = Inr nt"
  shows "\<exists>q h n. py_truediv py a b = Inr q \<and> float_mul py q (1 / 2) = Inr h \<and>
           int_of h = Inr n \<and> list_alloc py n = None \<and> nt = replicate (nat n) 1"
  using assms
  by (auto simp add: num_taps_expr_def py_list_times_def list_times_single
      split: sum.splits option.splits)

lemma exact_num_taps:
  "b \<noteq> 0 \<Longrightarrow> num_taps_expr exact a b = Inr (list_times [1] (py_int (a / b * (1 / 2))))"
  by (simp add: num_taps_expr_def py_truediv_def py_list_times_def exact_def mult.commute)

lemma exact_rate: "d \<noteq> 0 \<Longrightarrow> rate_expr exact a d = Inr (py_int (a / d))"
  by (simp add: rate_expr_def py_truediv_def exact_def)

lemma shipped_num_taps:
  "num_taps_expr exact (v_adc_rate shipped_variables) (v_blf shipped_variables) =
     Inr (replicate 25 1)"
  by (simp add: exact_num_taps shipped_variables_def py_int_def list_times_def)

lemma shipped_rate:
  "rate_expr exact (v_adc_rate shipped_variables) (v_decim shipped_variables) = Inr 400000"
  by (simp add: exact_rate shipped_variables_def py_int_def)

lemma top_block_init_value: "top_block_init = Inr shipped_top_block"
  by (simp add: top_block_init_def build_def shipped_num_taps shipped_rate shipped_top_block_def)

lemma shipped_fields:
  "blf shipped_top_block = 40000"
  "adc_rate shipped_top_block = 2000000"
  "decim shipped_top_block = 5"
  "ampl shipped_top_block = 1 / 2"
  "num_taps shipped_top_block = replicate 25 1"
  "connections shipped_top_block = top_block_connections"
  by (simp_all add: shipped_top_block_def assemble_def shipped_variables_def)

section \<open>Construction: rates, wiring, files\<close>

text \<open>
  C3. The constructor succeeds, and gives the gate, the tag decoder and the reader the
  rate \<open>int(adc_rate/decim)\<close>. With the shipped \<open>adc_rate = 100e6/50\<close> and \<open>decim = 5\<close> that
  rate is 400000, which is \<open>blf \<times> 10\<close> at \<open>blf = 40e3\<close>.
\<close>

theorem effective_sample_rate_at_construction:
  "top_block_init = Inr shipped_top_block \<and>
   adc_rate shipped_top_block = 100000000 / 50 \<and>
   decim shipped_top_block = 5 \<and>
   blf shipped_top_block = 40000 \<and>
   rate_expr exact (adc_rate shipped_top_block) (decim shipped_top_block) = Inr 400000 \<and>
   gt_sample_rate (rfid_gate_0 shipped_top_block) = 400000 \<and>
   td_sample_rate (rfid_tag_decoder_0 shipped_top_block) = 400000 \<and>
   rd_sample_rate (rfid_reader_0 shipped_top_block) = 400000 \<and>
   rat_of_int 400000 = blf shipped_top_block * 10"
  using top_block_init_value shipped_rate
  by (simp add: shipped_top_block_def assemble_def shipped_variables_def)

text \<open>
  C4. In the wiring of the constructed flow graph, output 0 of the gate goes to the tag
  decoder and nowhere else, output 0 of the tag decoder goes to the reader and nowhere
  else; the gate is fed by the channel filter only, the decoder by the gate only, the
  reader by the decoder only. The reader's output goes to the multiplier, the multiplier's
  to the float-to-complex converter, the converter's to file sink 0, which has no output.
  The blocks downstream of the reader are exactly these four (one more round of \<open>grow\<close> adds
  nothing), so neither the gate nor the tag decoder is among them.
\<close>

theorem core_flows_one_way:
  "top_block_init = Inr shipped_top_block \<and>
   connections shipped_top_block = top_block_connections \<and>
   fed_by top_block_connections (Rfid_gate_0, 0) = [(Rfid_tag_decoder_0, 0)] \<and>
   fed_by top_block_connections (Rfid_tag_decoder_0, 0) = [(Rfid_reader_0, 0)] \<and>
   feeders top_block_connections (Rfid_gate_0, 0) = [(Fir_filter_xxx_0, 0)] \<and>
   feeders top_block_connections (Rfid_tag_decoder_0, 0) = [(Rfid_gate_0, 0)] \<and>
   feeders top_block_connections (Rfid_reader_0, 0) = [(Rfid_tag_decoder_0, 0)] \<and>
   successors top_block_connections Rfid_reader_0 = [Blocks_multiply_const_vxx_0] \<and>
   successors top_block_connections Blocks_multiply_const_vxx_0 = [Blocks_float_to_complex_0] \<and>
   successors top_block_connections Blocks_float_to_complex_0 = [Blocks_file_sink_0] \<and>
   successors top_block_connections Blocks_file_sink_0 = [] \<and>
   downstream top_block_connections Rfid_reader_0 =
     [Rfid_reader_0, Blocks_multiply_const_vxx_0, Blocks_float_to_complex_0, Blocks_file_sink_0] \<and>
   grow top_block_connections (downstream top_block_connections Rfid_reader_0) =
     downstream top_block_connections Rfid_reader_0 \<and>
   Rfid_gate_0 \<notin> set (downstream top_block_connections Rfid_reader_0) \<and>
   Rfid_tag_decoder_0 \<notin> set (downstream top_block_connections Rfid_reader_0)"
  using top_block_init_value shipped_fields(6)
  by (simp add: fed_by_def feeders_def successors_def downstream_def grow_def
      top_block_connections_def)

text \<open>
  C5. The flow graph stands on files. The sample source is a file source (reading
  \<open>.../misc/data/file_source_test\<close>) whose output feeds the FIR filter, which decimates by
  \<open>decim\<close> and feeds the gate. The reader's output goes through the multiplier and the
  float-to-complex converter into file sink 0, and nothing else feeds that sink. Output 1
  of the tag decoder goes into file sink 1, and nothing else feeds that sink.
\<close>

theorem simulated_transceiver_wiring:
  "top_block_init = Inr shipped_top_block \<and>
   connections shipped_top_block = top_block_connections \<and>
   src_filename (blocks_file_source_0 shipped_top_block) =
     ''/home/andreas/Engineering/PartIIB/Project/repos/Hertz/gr-rfid/misc/data/file_source_test'' \<and>
   fed_by top_block_connections (Blocks_file_source_0, 0) = [(Fir_filter_xxx_0, 0)] \<and>
   fir_decimation (fir_filter_xxx_0 shipped_top_block) = decim shipped_top_block \<and>
   fed_by top_block_connections (Fir_filter_xxx_0, 0) = [(Rfid_gate_0, 0)] \<and>
   fed_by top_block_connections (Rfid_reader_0, 0) = [(Blocks_multiply_const_vxx_0, 0)] \<and>
   fed_by top_block_connections (Blocks_multiply_const_vxx_0, 0) =
     [(Blocks_float_to_complex_0, 0)] \<and>
   fed_by top_block_connections (Blocks_float_to_complex_0, 0) = [(Blocks_file_sink_0, 0)] \<and>
   feeders top_block_connections (Blocks_file_sink_0, 0) = [(Blocks_float_to_complex_0, 0)] \<and>
   fed_by top_block_connections (Rfid_tag_decoder_0, 1) = [(Blocks_file_sink_1, 0)] \<and>
   feeders top_block_connections (Blocks_file_sink_1, 0) = [(Rfid_tag_decoder_0, 1)]"
  using top_block_init_value shipped_fields(6)
  by (simp add: fed_by_def feeders_def top_block_connections_def shipped_top_block_def
      assemble_def shipped_variables_def)

text \<open>
  C10. The two file sinks are constructed on the same path: file sink 0, which receives the
  reader's waveform from the float-to-complex converter, and file sink 1, which receives
  output 1 of the tag decoder, both write \<open>.../misc/data/file_sink\<close>.
\<close>

theorem file_sinks_share_path:
  "top_block_init = Inr shipped_top_block \<and>
   snk_filename (blocks_file_sink_0 shipped_top_block) =
     ''/home/andreas/Engineering/PartIIB/Project/repos/Hertz/gr-rfid/misc/data/file_sink'' \<and>
   snk_filename (blocks_file_sink_1 shipped_top_block) =
     ''/home/andreas/Engineering/PartIIB/Project/repos/Hertz/gr-rfid/misc/data/file_sink'' \<and>
   snk_filename (blocks_file_sink_0 shipped_top_block) =
     snk_filename (blocks_file_sink_1 shipped_top_block) \<and>
   feeders (connections shipped_top_block) (Blocks_file_sink_0, 0) =
     [(Blocks_float_to_complex_0, 0)] \<and>
   Blocks_file_sink_0 \<in> set (downstream (connections shipped_top_block) Rfid_reader_0) \<and>
   feeders (connections shipped_top_block) (Blocks_file_sink_1, 0) = [(Rfid_tag_decoder_0, 1)]"
  using top_block_init_value
  by (simp add: feeders_def downstream_def grow_def successors_def top_block_connections_def
      shipped_top_block_def assemble_def)

section \<open>Setters\<close>

lemma setters_keep_connections:
  "connections (state_of (set_blf py s v)) = connections s"
  "connections (state_of (set_adc_rate py s v)) = connections s"
  "connections (state_of (set_tx_gain s v)) = connections s"
  "connections (state_of (set_samp_rate s v)) = connections s"
  "connections (state_of (set_rx_gain s v)) = connections s"
  "connections (state_of (set_num_taps s t)) = connections s"
  "connections (state_of (set_freq s v)) = connections s"
  "connections (state_of (set_decim s v)) = connections s"
  "connections (state_of (set_dac_rate s v)) = connections s"
  "connections (state_of (set_ampl s v)) = connections s"
  by (simp_all add: set_blf_def set_adc_rate_def set_tx_gain_def set_samp_rate_def
      set_rx_gain_def set_num_taps_def set_freq_def set_decim_def set_dac_rate_def
      set_ampl_def Let_def split: sum.splits)

text \<open>
  C6. The multiplier sits between the reader and the sink: the reader's output is its only
  input, and its output goes through the float-to-complex converter to file sink 0. It is
  constructed with the one-element constant \<open>(ampl, )\<close>, which is \<open>0.5\<close> as shipped. For
  every object \<open>s\<close> and value \<open>a\<close>, \<open>set_ampl(a)\<close> returns, stores \<open>a\<close> in \<open>ampl\<close> and sets the
  multiplier's constant to \<open>(a, )\<close>.
\<close>

theorem transmit_amplitude_scales_output:
  "top_block_init = Inr shipped_top_block \<and>
   mc_k (blocks_multiply_const_vxx_0 shipped_top_block) = [ampl shipped_top_block] \<and>
   ampl shipped_top_block = 1 / 2 \<and>
   feeders (connections shipped_top_block) (Blocks_multiply_const_vxx_0, 0) =
     [(Rfid_reader_0, 0)] \<and>
   fed_by (connections shipped_top_block) (Rfid_reader_0, 0) =
     [(Blocks_multiply_const_vxx_0, 0)] \<and>
   fed_by (connections shipped_top_block) (Blocks_multiply_const_vxx_0, 0) =
     [(Blocks_float_to_complex_0, 0)] \<and>
   fed_by (connections shipped_top_block) (Blocks_float_to_complex_0, 0) =
     [(Blocks_file_sink_0, 0)] \<and>
   raised (set_ampl s a) = None \<and>
   ampl (state_of (set_ampl s a)) = a \<and>
   mc_k (blocks_multiply_const_vxx_0 (state_of (set_ampl s a))) = [a] \<and>
   connections (state_of (set_ampl s a)) = connections s"
  using top_block_init_value
  by (simp add: feeders_def fed_by_def top_block_connections_def shipped_top_block_def
      assemble_def shipped_variables_def set_ampl_def Let_def)

text \<open>
  C8. Each of \<open>set_freq\<close>, \<open>set_tx_gain\<close>, \<open>set_rx_gain\<close>, \<open>set_samp_rate\<close>,
  \<open>set_dac_rate\<close> and \<open>set_decim\<close> returns, stores its argument in its own field, and
  changes nothing else: putting the old value of that one field back gives the object as
  it was before the call, and the parameters of every block (rates, filter taps and
  decimation, multiplier constant, file names, wiring) are those before the call.
\<close>

theorem plain_setters_change_one_field:
  "raised (set_freq s v) = None \<and>
   freq (state_of (set_freq s v)) = v \<and>
   (state_of (set_freq s v))\<lparr>freq := freq s\<rparr> = s \<and>
   block_parameters (state_of (set_freq s v)) = block_parameters s \<and>
   raised (set_tx_gain s v) = None \<and>
   tx_gain (state_of (set_tx_gain s v)) = v \<and>
   (state_of (set_tx_gain s v))\<lparr>tx_gain := tx_gain s\<rparr> = s \<and>
   block_parameters (state_of (set_tx_gain s v)) = block_parameters s \<and>
   raised (set_rx_gain s v) = None \<and>
   rx_gain (state_of (set_rx_gain s v)) = v \<and>
   (state_of (set_rx_gain s v))\<lparr>rx_gain := rx_gain s\<rparr> = s \<and>
   block_parameters (state_of (set_rx_gain s v)) = block_parameters s \<and>
   raised (set_samp_rate s v) = None \<and>
   samp_rate (state_of (set_samp_rate s v)) = v \<and>
   (state_of (set_samp_rate s v))\<lparr>samp_rate := samp_rate s\<rparr> = s \<and>
   block_parameters (state_of (set_samp_rate s v)) = block_parameters s \<and>
   raised (set_dac_rate s v) = None \<and>
   dac_rate (state_of (set_dac_rate s v)) = v \<and>
   (state_of (set_dac_rate s v))\<lparr>dac_rate := dac_rate s\<rparr> = s \<and>
   block_parameters (state_of (set_dac_rate s v)) = block_parameters s \<and>
   raised (set_decim s v) = None \<and>
   decim (state_of (set_decim s v)) = v \<and>
   (state_of (set_decim s v))\<lparr>decim := decim s\<rparr> = s \<and>
   block_parameters (state_of (set_decim s v)) = block_parameters s"
  by (simp add: set_freq_def set_tx_gain_def set_rx_gain_def set_samp_rate_def
      set_dac_rate_def set_decim_def block_parameters_def)

text \<open>
  C9. For each of the ten variables, the getter called on the object left by the setter
  returns the value the setter was given. This holds for every object and every value,
  also where \<open>set_blf\<close> or \<open>set_adc_rate\<close> raises on a zero \<open>blf\<close>, and whatever the
  interpreter makes of the tap expression: the assignment comes before the division.
\<close>

theorem setter_getter_round_trip:
  "get_blf (state_of (set_blf py s v)) = v \<and>
   get_adc_rate (state_of (set_adc_rate py s v)) = v \<and>
   get_tx_gain (state_of (set_tx_gain s v)) = v \<and>
   get_samp_rate (state_of (set_samp_rate s v)) = v \<and>
   get_rx_gain (state_of (set_rx_gain s v)) = v \<and>
   get_num_taps (state_of (set_num_taps s t)) = t \<and>
   get_freq (state_of (set_freq s v)) = v \<and>
   get_decim (state_of (set_decim s v)) = v \<and>
   get_dac_rate (state_of (set_dac_rate s v)) = v \<and>
   get_ampl (state_of (set_ampl s v)) = v"
  by (simp add: get_blf_def get_adc_rate_def get_tx_gain_def get_samp_rate_def
      get_rx_gain_def get_num_taps_def get_freq_def get_decim_def get_dac_rate_def
      get_ampl_def set_blf_def set_adc_rate_def set_tx_gain_def set_samp_rate_def
      set_rx_gain_def set_num_taps_def set_freq_def set_decim_def set_dac_rate_def
      set_ampl_def Let_def split: sum.splits)

section \<open>What the tap vector depends on\<close>

lemma build_Inr_iff:
  "(build py v = Inr tb) =
     (\<exists>nt r. num_taps_expr py (v_adc_rate v) (v_blf v) = Inr nt \<and>
        rate_expr py (v_adc_rate v) (v_decim v) = Inr r \<and> tb = assemble v nt r)"
  by (auto simp add: build_def split: sum.splits)

lemma build_decim_10:
  "build exact (shipped_variables\<lparr>v_decim := 10\<rparr>) =
     Inr (assemble (shipped_variables\<lparr>v_decim := 10\<rparr>) (replicate 25 1) 200000)"
  by (simp add: build_def exact_num_taps exact_rate py_int_def list_times_def
      shipped_variables_def)





text \<open>
  C2, as stated, fails. The constructor run with \<open>decim = 10\<close> instead of 5, all else as
  shipped, gives 25 taps as the shipped constructor does; and \<open>set_decim(10)\<close> on the
  constructed object leaves the tap count at 25.
\<close>

theorem tap_count_ignores_decim:
  "build exact shipped_variables = Inr (assemble shipped_variables (replicate 25 1) 400000) \<and>
   build exact (shipped_variables\<lparr>v_decim := 10\<rparr>) =
     Inr (assemble (shipped_variables\<lparr>v_decim := 10\<rparr>) (replicate 25 1) 200000) \<and>
   decim (assemble shipped_variables (replicate 25 1) 400000) = 5 \<and>
   decim (assemble (shipped_variables\<lparr>v_decim := 10\<rparr>) (replicate 25 1) 200000) = 10 \<and>
   length (num_taps (assemble shipped_variables (replicate 25 1) 400000)) = 25 \<and>
   length (num_taps (assemble (shipped_variables\<lparr>v_decim := 10\<rparr>) (replicate 25 1) 200000)) =
     25 \<and>
   length (fir_taps (fir_filter_xxx_0
     (assemble (shipped_variables\<lparr>v_decim := 10\<rparr>) (replicate 25 1) 200000))) = 25 \<and>
   decim (state_of (set_decim shipped_top_block 10)) = 10 \<and>
   length (num_taps (state_of (set_decim shipped_top_block 10))) = 25"
  using top_block_init_value build_decim_10
  by (simp add: top_block_init_def shipped_top_block_def assemble_def shipped_variables_def
      set_decim_def)

text \<open>
  C2, amended. The tap count is determined by \<open>adc_rate\<close> and \<open>blf\<close>. In a constructed flow
  graph \<open>num_taps\<close> is the value of \<open>[1]* int(adc_rate/blf * 0.5)\<close>: with \<open>q\<close> what the
  interpreter gives for \<open>adc_rate/blf\<close>, \<open>h\<close> for \<open>q * 0.5\<close> and \<open>n\<close> for \<open>int(h)\<close>, it is \<open>n\<close>
  ones (none when \<open>n\<close> is negative), and the filter holds the same list. A construction that
  differs only in \<open>decim\<close> has the same taps. This holds for every interpreter.
\<close>

theorem tap_count_from_adc_rate_and_blf:
  "(build py v = Inr tb \<longrightarrow>
      num_taps_expr py (v_adc_rate v) (v_blf v) = Inr (num_taps tb) \<and>
      (\<exists>q h n. py_truediv py (v_adc_rate v) (v_blf v) = Inr q \<and>
         float_mul py q (1 / 2) = Inr h \<and> int_of h = Inr n \<and>
         num_taps tb = replicate (nat n) 1 \<and> length (num_taps tb) = nat n) \<and>
      fir_taps (fir_filter_xxx_0 tb) = num_taps tb) \<and>
   (build py v = Inr tb \<and> build py (v\<lparr>v_decim := d\<rparr>) = Inr tb' \<longrightarrow>
      num_taps tb' = num_taps tb \<and>
      fir_taps (fir_filter_xxx_0 tb') = fir_taps (fir_filter_xxx_0 tb))"
proof -
  have one:
    "num_taps_expr py (v_adc_rate v) (v_blf v) = Inr (num_taps tb) \<and>
     (\<exists>q h n. py_truediv py (v_adc_rate v) (v_blf v) = Inr q \<and>
        float_mul py q (1 / 2) = Inr h \<and> int_of h = Inr n \<and>
        num_taps tb = replicate (nat n) 1 \<and> length (num_taps tb) = nat n) \<and>
     fir_taps (fir_filter_xxx_0 tb) = num_taps tb"
    if b: "build py v = Inr tb"
  proof -
    from b obtain nt r where
      nt: "num_taps_expr py (v_adc_rate v) (v_blf v) = Inr nt" and tb: "tb = assemble v nt r"
      by (auto simp add: build_Inr_iff)
    have fields: "num_taps tb = nt" "fir_taps (fir_filter_xxx_0 tb) = nt"
      by (simp_all add: tb assemble_def)
    from num_taps_expr_steps [OF nt] obtain q h n where
      "py_truediv py (v_adc_rate v) (v_blf v) = Inr q" "float_mul py q (1 / 2) = Inr h"
      "int_of h = Inr n" "nt = replicate (nat n) 1"
      by blast
    then show ?thesis
      using nt fields by auto
  qed
  have two:
    "num_taps tb' = num_taps tb \<and>
     fir_taps (fir_filter_xxx_0 tb') = fir_taps (fir_filter_xxx_0 tb)"
    if b: "build py v = Inr tb" and b': "build py (v\<lparr>v_decim := d\<rparr>) = Inr tb'"
  proof -
    from b obtain nt r where
      nt: "num_taps_expr py (v_adc_rate v) (v_blf v) = Inr nt" and tb: "tb = assemble v nt r"
      by (auto simp add: build_Inr_iff)
    from b' obtain nt' r' where
      nt': "num_taps_expr py (v_adc_rate v) (v_blf v) = Inr nt'"
      and tb': "tb' = assemble (v\<lparr>v_decim := d\<rparr>) nt' r'"
      by (auto simp add: build_Inr_iff)
    from nt nt' have "nt' = nt" by simp
    then show ?thesis
      by (simp add: tb tb' assemble_def)
  qed
  show ?thesis
    using one two by blast
qed

text \<open>The amended C2 at the shipped variables and \<open>decim = 10\<close>: 25 taps both times.\<close>

theorem tap_count_from_adc_rate_and_blf_witness:
  "build exact shipped_variables = Inr shipped_top_block \<and>
   build exact (shipped_variables\<lparr>v_decim := 10\<rparr>) =
     Inr (assemble (shipped_variables\<lparr>v_decim := 10\<rparr>) (replicate 25 1) 200000) \<and>
   num_taps_expr exact (v_adc_rate shipped_variables) (v_blf shipped_variables) =
     Inr (num_taps shipped_top_block) \<and>
   length (num_taps shipped_top_block) = 25 \<and>
   fir_taps (fir_filter_xxx_0 shipped_top_block) = num_taps shipped_top_block \<and>
   num_taps (assemble (shipped_variables\<lparr>v_decim := 10\<rparr>) (replicate 25 1) 200000) =
     num_taps shipped_top_block"
proof -
  have one: "build exact shipped_variables = Inr shipped_top_block"
    using top_block_init_value by (simp add: top_block_init_def)
  note t = tap_count_from_adc_rate_and_blf
    [of exact shipped_variables shipped_top_block 10
      "assemble (shipped_variables\<lparr>v_decim := 10\<rparr>) (replicate 25 1) 200000"]
  from t one have
    "num_taps_expr exact (v_adc_rate shipped_variables) (v_blf shipped_variables) =
       Inr (num_taps shipped_top_block)"
    by blast
  moreover have "length (num_taps shipped_top_block) = 25"
    by (simp add: shipped_fields)
  moreover from t one have
    "fir_taps (fir_filter_xxx_0 shipped_top_block) = num_taps shipped_top_block"
    by blast
  moreover from t one build_decim_10 have
    "num_taps (assemble (shipped_variables\<lparr>v_decim := 10\<rparr>) (replicate 25 1) 200000) =
       num_taps shipped_top_block"
    by blast
  ultimately show ?thesis using one build_decim_10 by blast
qed

section \<open>What makes construction fail\<close>







end
